theory Spec2Isabelle
  imports Main "HOL-Library.Word" "HOL-Library.Sublist"
begin

section \<open>Go's \<open>path\<close> package, as far as rafthttp/http.go calls it\<close>

text \<open>
  http.go calls \<open>path.Join\<close>, \<open>path.Dir\<close> and \<open>path.Base\<close> of Go's standard library.
  They are transliterated here: \<open>Clean\<close> keeps the loop of the library (a read position
  in the input, an output buffer and the \<open>dotdot\<close> mark), so that a path can be traced
  through the model the way it is traced through the Go code.
\<close>

text \<open>\<open>strings.LastIndex(s, c)\<close> for a one-byte separator: the last position of \<open>c\<close>, or -1.\<close>

fun LastIndex :: "string \<Rightarrow> char \<Rightarrow> int" where
  "LastIndex [] c = - 1"
| "LastIndex (x # xs) c =
     (let i = LastIndex xs c
      in if 0 \<le> i then i + 1 else if x = c then 0 else - 1)"

text \<open>
  The backtracking of \<open>Clean\<close> at a \<open>..\<close> element:
  \<^verbatim>\<open>out.w--; for out.w > dotdot && out.index(out.w) != '/' { out.w-- }\<close>
\<close>

function back_w :: "string \<Rightarrow> nat \<Rightarrow> nat \<Rightarrow> nat" where
  "back_w out dotdot w =
     (if dotdot < w \<and> out ! w \<noteq> CHR ''/'' then back_w out dotdot (w - 1) else w)"
  by pat_completeness auto
termination
  by (relation "measure (\<lambda>(out, dotdot, w). w)") auto

declare back_w.simps [simp del]

definition backtrack :: "string \<Rightarrow> nat \<Rightarrow> string" where
  "backtrack out dotdot = take (back_w out dotdot (length out - 1)) out"

text \<open>
  The main loop of \<open>Clean\<close>. The second argument is the unread rest of the path
  (\<open>path[r:]\<close>), \<open>out\<close> is the buffer written so far.
\<close>

function clean_loop :: "bool \<Rightarrow> string \<Rightarrow> string \<Rightarrow> nat \<Rightarrow> string" where
  "clean_loop rooted [] out dotdot = out"
| "clean_loop rooted (c # cs) out dotdot =
     (if c = CHR ''/'' then clean_loop rooted cs out dotdot
      else if c = CHR ''.'' \<and> (cs = [] \<or> hd cs = CHR ''/'') then clean_loop rooted cs out dotdot
      else if c = CHR ''.'' \<and> cs \<noteq> [] \<and> hd cs = CHR ''.''
                \<and> (tl cs = [] \<or> hd (tl cs) = CHR ''/'') then
        (if dotdot < length out then clean_loop rooted (tl cs) (backtrack out dotdot) dotdot
         else if \<not> rooted then
           clean_loop rooted (tl cs) ((if out \<noteq> [] then out @ ''/'' else out) @ ''..'')
             (length ((if out \<noteq> [] then out @ ''/'' else out) @ ''..''))
         else clean_loop rooted (tl cs) out dotdot)
      else
        clean_loop rooted (dropWhile (\<lambda>x. x \<noteq> CHR ''/'') cs)
          ((if (rooted \<and> length out \<noteq> 1) \<or> (\<not> rooted \<and> length out \<noteq> 0)
            then out @ ''/'' else out) @ c # takeWhile (\<lambda>x. x \<noteq> CHR ''/'') cs)
          dotdot)"
  by pat_completeness auto
termination
proof (relation "measure (\<lambda>(rooted, p, out, dotdot). length p)")
  show "wf (measure (\<lambda>(rooted, p, out, dotdot). length p))"
    by simp
next
  fix rooted :: bool and c :: char and cs out :: string and dotdot :: nat
  show "((rooted, dropWhile (\<lambda>x. x \<noteq> CHR ''/'') cs,
          (if (rooted \<and> length out \<noteq> 1) \<or> (\<not> rooted \<and> length out \<noteq> 0)
           then out @ ''/'' else out) @ c # takeWhile (\<lambda>x. x \<noteq> CHR ''/'') cs, dotdot),
         (rooted, c # cs, out, dotdot))
        \<in> measure (\<lambda>(rooted, p, out, dotdot). length p)"
    using length_dropWhile_le [of "\<lambda>x. x \<noteq> CHR ''/''" cs] by simp
qed (auto simp: less_Suc_eq_le intro: le_trans [OF length_tl [THEN eq_imp_le]])

definition Clean :: "string \<Rightarrow> string" where
  "Clean p =
     (if p = [] then ''.''
      else
        (let rooted = (hd p = CHR ''/'');
             out = clean_loop rooted (if rooted then tl p else p)
                     (if rooted then ''/'' else []) (if rooted then 1 else 0)
         in if out = [] then ''.'' else out))"

text \<open>\<open>path.Split\<close>: the cut after the last slash.\<close>

definition Split :: "string \<Rightarrow> string \<times> string" where
  "Split p = (let i = LastIndex p CHR ''/'' in (take (nat (i + 1)) p, drop (nat (i + 1)) p))"

definition Dir :: "string \<Rightarrow> string" where
  "Dir p = Clean (fst (Split p))"

text \<open>\<open>path.Base\<close> first strips the trailing slashes.\<close>

function strip_slashes :: "string \<Rightarrow> string" where
  "strip_slashes p =
     (if p \<noteq> [] \<and> last p = CHR ''/'' then strip_slashes (butlast p) else p)"
  by pat_completeness auto
termination
  by (relation "measure length") auto

declare strip_slashes.simps [simp del]

definition Base :: "string \<Rightarrow> string" where
  "Base p =
     (if p = [] then ''.''
      else
        (let p1 = strip_slashes p;
             i = LastIndex p1 CHR ''/'';
             p2 = (if 0 \<le> i then drop (nat (i + 1)) p1 else p1)
         in if p2 = [] then ''/'' else p2))"

fun strings_Join :: "string list \<Rightarrow> string \<Rightarrow> string" where
  "strings_Join [] sep = []"
| "strings_Join [e] sep = e"
| "strings_Join (e # es) sep = e @ sep @ strings_Join es sep"

text \<open>\<open>path.Join\<close> skips the leading empty elements, joins the rest with slashes and cleans.\<close>

definition Join :: "string list \<Rightarrow> string" where
  "Join elem =
     (case dropWhile (\<lambda>e. e = []) elem of
        [] \<Rightarrow> []
      | es \<Rightarrow> Clean (strings_Join es ''/''))"

section \<open>net/http, as far as the handlers use it\<close>

text \<open>
  \<open>http.Header\<close> is a map from a key to its list of values. \<open>Get\<close> returns the first
  value of the key, or the empty string; \<open>Set\<close> replaces the list by the one value.
  Go canonicalises the key in both, so a key as http.go writes it names the same entry
  in \<open>Get\<close> and in \<open>Set\<close>; the model compares the keys as they are written.
\<close>

type_synonym Header = "string \<rightharpoonup> string list"

definition header_Get :: "Header \<Rightarrow> string \<Rightarrow> string" where
  "header_Get h key = (case h key of None \<Rightarrow> [] | Some [] \<Rightarrow> [] | Some (v # vs) \<Rightarrow> v)"

definition header_Set :: "Header \<Rightarrow> string \<Rightarrow> string \<Rightarrow> Header" where
  "header_Set h key v = h(key \<mapsto> [v])"

type_synonym byte = "8 word"

text \<open>
  A request body is a reader: \<open>b_data\<close> are the bytes it yields, after which it reports
  the end of the input (\<open>b_err = None\<close>) or a read error.
\<close>

record body =
  b_data :: "byte list"
  b_err :: "string option"

record Request =
  r_Method :: string
  r_URL_Path :: string
  r_Header :: Header
  r_Body :: body

text \<open>
  The \<open>http.ResponseWriter\<close>: the header map, the status once it is written, the body
  written so far, whether the writer implements \<open>http.Flusher\<close> and whether it was flushed.
\<close>

record ResponseWriter =
  w_Header :: Header
  w_status :: "nat option"
  w_body :: string
  w_isFlusher :: bool
  w_flushed :: bool

abbreviation StatusOK :: nat where "StatusOK \<equiv> 200"
abbreviation StatusNoContent :: nat where "StatusNoContent \<equiv> 204"
abbreviation StatusBadRequest :: nat where "StatusBadRequest \<equiv> 400"
abbreviation StatusNotFound :: nat where "StatusNotFound \<equiv> 404"
abbreviation StatusMethodNotAllowed :: nat where "StatusMethodNotAllowed \<equiv> 405"
abbreviation StatusGone :: nat where "StatusGone \<equiv> 410"
abbreviation StatusPreconditionFailed :: nat where "StatusPreconditionFailed \<equiv> 412"
abbreviation StatusInternalServerError :: nat where "StatusInternalServerError \<equiv> 500"

definition w_Header_Set :: "ResponseWriter \<Rightarrow> string \<Rightarrow> string \<Rightarrow> ResponseWriter" where
  "w_Header_Set w key v = w\<lparr>w_Header := header_Set (w_Header w) key v\<rparr>"

text \<open>Only the first \<open>WriteHeader\<close> of a response counts; a later one is ignored.\<close>

definition WriteHeader :: "ResponseWriter \<Rightarrow> nat \<Rightarrow> ResponseWriter" where
  "WriteHeader w code = (if w_status w = None then w\<lparr>w_status := Some code\<rparr> else w)"

text \<open>\<open>Write\<close> sends status 200 first when no status was written.\<close>

definition Write :: "ResponseWriter \<Rightarrow> string \<Rightarrow> ResponseWriter" where
  "Write w s = (let w' = WriteHeader w StatusOK in w'\<lparr>w_body := w_body w' @ s\<rparr>)"

text \<open>
  \<open>http.Error\<close>: the two content headers, the status, and the message followed by a
  newline (\<open>fmt.Fprintln\<close>).
\<close>

definition http_Error :: "ResponseWriter \<Rightarrow> string \<Rightarrow> nat \<Rightarrow> ResponseWriter" where
  "http_Error w err code =
     Write
       (WriteHeader
          (w_Header_Set (w_Header_Set w ''Content-Type'' ''text/plain; charset=utf-8'')
             ''X-Content-Type-Options'' ''nosniff'')
          code)
       (err @ [CHR 0x0A])"

definition Flush :: "ResponseWriter \<Rightarrow> ResponseWriter" where
  "Flush w = (WriteHeader w StatusOK)\<lparr>w_flushed := True\<rparr>"

section \<open>The data of rafthttp\<close>

type_synonym ID = "64 word"

text \<open>
  Modelled from the spec: \<open>raftpb.Message\<close> and its type tags are declared in raft/raftpb,
  which is not part of the sources at hand. The record has the fields the spec's data
  model names (type tag, term, sender, receiver, the index of the snapshot metadata);
  the handlers read \<open>Type\<close>, \<open>From\<close> and \<open>Snapshot.Metadata.Index\<close>.
\<close>

datatype MessageType = MsgApp | MsgHeartbeat | MsgSnap | MsgOther nat

record Message =
  m_Type :: MessageType
  m_To :: "64 word"
  m_From :: "64 word"
  m_Term :: "64 word"
  m_Snapshot_Metadata_Index :: "64 word"

text \<open>
  The three stream types. Modelled from the spec: the constants are declared in
  stream.go, which is not part of the sources at hand; the spec's path table gives the
  strings of the two that http.go converts with \<open>string(...)\<close>.
\<close>

datatype streamType = streamTypeMsgApp | streamTypeMsgAppV2 | streamTypeMessage

definition string_streamTypeMsgApp :: string where
  "string_streamTypeMsgApp = ''msgapp''"

definition string_streamTypeMessage :: string where
  "string_streamTypeMessage = ''message''"

text \<open>
  A Go channel that nobody sends on, as \<open>closeNotifier.done\<close> is: it is open or closed.
  \<open>close\<close> of a closed channel panics. A receive from the open channel blocks (\<open>None\<close>);
  a receive from the closed channel returns at once and leaves it closed.
\<close>

datatype chan = ChanOpen | ChanClosed

definition go_close :: "chan \<Rightarrow> string + chan" where
  "go_close c = (case c of ChanOpen \<Rightarrow> Inr ChanClosed
                 | ChanClosed \<Rightarrow> Inl ''close of closed channel'')"

definition go_recv :: "chan \<Rightarrow> chan option" where
  "go_recv c = (case c of ChanOpen \<Rightarrow> None | ChanClosed \<Rightarrow> Some ChanClosed)"

record closeNotifier =
  cn_done :: chan

definition newCloseNotifier :: closeNotifier where
  "newCloseNotifier = \<lparr>cn_done = ChanOpen\<rparr>"

text \<open>
  \<open>Close\<close> returns the panic of \<open>close\<close>, or the notifier after the call together with
  the error it returns, which is always nil (\<open>None\<close>).
\<close>

definition closeNotifier_Close :: "closeNotifier \<Rightarrow> string + (closeNotifier \<times> string option)" where
  "closeNotifier_Close n =
     (case go_close (cn_done n) of
        Inl p \<Rightarrow> Inl p
      | Inr c \<Rightarrow> Inr (n\<lparr>cn_done := c\<rparr>, None))"

definition closeNotify :: "closeNotifier \<Rightarrow> chan" where
  "closeNotify n = cn_done n"

text \<open>The wait \<^verbatim>\<open><-c.closeNotify()\<close>: \<open>None\<close> while it blocks, else the notifier afterwards.\<close>

definition wait_closeNotify :: "closeNotifier \<Rightarrow> closeNotifier option" where
  "wait_closeNotify n = map_option (\<lambda>c. n\<lparr>cn_done := c\<rparr>) (go_recv (closeNotify n))"

record outgoingConn =
  conn_t :: streamType
  conn_termStr :: string
  conn_Writer :: ResponseWriter
  conn_Closer :: closeNotifier

datatype Peer = Peer ID

text \<open>
  An error of \<open>Raft.Process\<close> either implements \<open>writerToResponse\<close>, and then carries its
  \<open>WriteTo\<close>, or it is any other error, with its text.
\<close>

datatype process_error =
  WriterToResponse "ResponseWriter \<Rightarrow> ResponseWriter"
| OtherError string

record Raft =
  Process :: "Message \<Rightarrow> process_error option"
  IsIDRemoved :: "64 word \<Rightarrow> bool"

record SnapshotSaver =
  SaveFrom :: "body \<Rightarrow> 64 word \<Rightarrow> string option"

record peerGetter =
  Get :: "ID \<Rightarrow> Peer option"

text \<open>
  What http.go uses and other files of the repository declare (util.go, pkg/types,
  raftpb, msg_codec.go, version): these are parameters of the model. An error is its
  text; \<open>'v\<close> is the type of a version. \<open>decode\<close> reads the message envelope from the
  body and leaves the rest of the body to be read.
\<close>

record 'v deps =
  checkVersionCompability :: "string \<Rightarrow> 'v \<Rightarrow> 'v \<Rightarrow> string option"
  serverVersion :: "Header \<Rightarrow> 'v"
  minClusterVersion :: "Header \<Rightarrow> 'v"
  ID_String :: "ID \<Rightarrow> string"
  IDFromString :: "string \<Rightarrow> string + ID"
  Unmarshal :: "byte list \<Rightarrow> string + Message"
  decode :: "body \<Rightarrow> string + (Message \<times> body)"
  version_Version :: string

text \<open>
  The calls a handler makes on its collaborators and on the request body, in the order
  in which it makes them. Logging (\<open>plog\<close>) is left out.
\<close>

datatype event =
  CallCheckCompat
| CallReadAll
| CallUnmarshal "byte list"
| CallDecode
| CallSaveFrom "64 word"
| CallProcess Message
| CallIsIDRemoved "64 word"
| CallGet ID
| CallFlush
| CallAttach Peer outgoingConn
| CallWaitClose closeNotifier

record outcome =
  o_w :: ResponseWriter
  o_calls :: "event list"
  o_panic :: bool

definition finish :: "ResponseWriter \<Rightarrow> event list \<Rightarrow> outcome" where
  "finish w calls = \<lparr>o_w = w, o_calls = calls, o_panic = False\<rparr>"

section \<open>rafthttp/http.go\<close>

definition ConnReadLimitByte :: nat where
  "ConnReadLimitByte = 64 * 1024"

definition RaftPrefix :: string where
  "RaftPrefix = ''/raft''"

definition RaftStreamPrefix :: string where
  "RaftStreamPrefix = Join [RaftPrefix, ''stream'']"

definition RaftSnapshotPrefix :: string where
  "RaftSnapshotPrefix = Join [RaftPrefix, ''snapshot'']"

definition errIncompatibleVersion :: string where
  "errIncompatibleVersion = ''incompatible version''"

definition errClusterIDMismatch :: string where
  "errClusterIDMismatch = ''cluster ID mismatch''"

text \<open>
  Modelled from the spec: \<open>pioutil.NewLimitedBufferReader\<close> (pkg/ioutil) is not part of
  the sources at hand. The spec describes the read of the message handler as bounded by
  a fixed byte ceiling, where "exceeding the ceiling or encountering a read error yields
  a bad-request response". So \<open>ioutil.ReadAll\<close> of the limited reader fails when the body
  holds more than \<open>n\<close> bytes, fails with the body's own error when the body has one, and
  returns all the bytes otherwise.
\<close>

definition ReadAll_LimitedBufferReader :: "body \<Rightarrow> nat \<Rightarrow> string + byte list" where
  "ReadAll_LimitedBufferReader b n =
     (if n < length (b_data b) then Inl ''read limit exceeded''
      else case b_err b of
             Some err \<Rightarrow> Inl err
           | None \<Rightarrow> Inr (b_data b))"

text \<open>\<open>checkClusterCompatibilityFromHeader\<close>, lines 284 to 294.\<close>

definition checkClusterCompatibilityFromHeader :: "'v deps \<Rightarrow> Header \<Rightarrow> ID \<Rightarrow> string option" where
  "checkClusterCompatibilityFromHeader d header cid =
     (case checkVersionCompability d (header_Get header ''X-Server-From'')
             (serverVersion d header) (minClusterVersion d header) of
        Some err \<Rightarrow> Some errIncompatibleVersion
      | None \<Rightarrow>
          if header_Get header ''X-Etcd-Cluster-ID'' \<noteq> ID_String d cid
          then Some errClusterIDMismatch
          else None)"

record handler =
  h_r :: Raft
  h_cid :: ID

text \<open>\<open>handler.ServeHTTP\<close>, lines 82 to 124.\<close>

definition handler_ServeHTTP :: "'v deps \<Rightarrow> handler \<Rightarrow> ResponseWriter \<Rightarrow> Request \<Rightarrow> outcome" where
  "handler_ServeHTTP d h w r =
     (if r_Method r \<noteq> ''POST'' then
        finish (http_Error (w_Header_Set w ''Allow'' ''POST'') ''Method Not Allowed''
                  StatusMethodNotAllowed) []
      else
        let w1 = w_Header_Set w ''X-Etcd-Cluster-ID'' (ID_String d (h_cid h)) in
        case checkClusterCompatibilityFromHeader d (r_Header r) (h_cid h) of
          Some err \<Rightarrow> finish (http_Error w1 err StatusPreconditionFailed) [CallCheckCompat]
        | None \<Rightarrow>
            (case ReadAll_LimitedBufferReader (r_Body r) ConnReadLimitByte of
               Inl err \<Rightarrow>
                 finish (http_Error w1 ''error reading raft message'' StatusBadRequest)
                   [CallCheckCompat, CallReadAll]
             | Inr b \<Rightarrow>
                 (case Unmarshal d b of
                    Inl err \<Rightarrow>
                      finish (http_Error w1 ''error unmarshaling raft message'' StatusBadRequest)
                        [CallCheckCompat, CallReadAll, CallUnmarshal b]
                  | Inr m \<Rightarrow>
                      (case Process (h_r h) m of
                         Some (WriterToResponse WriteTo) \<Rightarrow>
                           finish (WriteTo w1)
                             [CallCheckCompat, CallReadAll, CallUnmarshal b, CallProcess m]
                       | Some (OtherError err) \<Rightarrow>
                           finish (http_Error w1 ''error processing raft message''
                                     StatusInternalServerError)
                             [CallCheckCompat, CallReadAll, CallUnmarshal b, CallProcess m]
                       | None \<Rightarrow>
                           finish (WriteHeader w1 StatusNoContent)
                             [CallCheckCompat, CallReadAll, CallUnmarshal b, CallProcess m]))))"

record snapshotHandler =
  sh_r :: Raft
  sh_snapSaver :: SnapshotSaver
  sh_cid :: ID

text \<open>
  \<open>snapshotHandler.ServeHTTP\<close>, lines 141 to 194. \<open>decode\<close> and \<open>SaveFrom\<close> read from the
  same body, one after the other: \<open>SaveFrom\<close> gets what \<open>decode\<close> has left.
\<close>

definition snapshotHandler_ServeHTTP ::
    "'v deps \<Rightarrow> snapshotHandler \<Rightarrow> ResponseWriter \<Rightarrow> Request \<Rightarrow> outcome" where
  "snapshotHandler_ServeHTTP d h w r =
     (if r_Method r \<noteq> ''POST'' then
        finish (http_Error (w_Header_Set w ''Allow'' ''POST'') ''Method Not Allowed''
                  StatusMethodNotAllowed) []
      else
        let w1 = w_Header_Set w ''X-Etcd-Cluster-ID'' (ID_String d (sh_cid h)) in
        case checkClusterCompatibilityFromHeader d (r_Header r) (sh_cid h) of
          Some err \<Rightarrow> finish (http_Error w1 err StatusPreconditionFailed) [CallCheckCompat]
        | None \<Rightarrow>
            (case decode d (r_Body r) of
               Inl err \<Rightarrow>
                 finish (http_Error w1 (''failed to decode raft message ('' @ err @ '')'')
                           StatusBadRequest)
                   [CallCheckCompat, CallDecode]
             | Inr (m, rest) \<Rightarrow>
                 if m_Type m \<noteq> MsgSnap then
                   finish (http_Error w1 ''wrong raft message type'' StatusBadRequest)
                     [CallCheckCompat, CallDecode]
                 else
                   (case SaveFrom (sh_snapSaver h) rest (m_Snapshot_Metadata_Index m) of
                      Some err \<Rightarrow>
                        finish (http_Error w1 (''failed to save KV snapshot ('' @ err @ '')'')
                                  StatusInternalServerError)
                          [CallCheckCompat, CallDecode,
                           CallSaveFrom (m_Snapshot_Metadata_Index m)]
                    | None \<Rightarrow>
                        (case Process (sh_r h) m of
                           Some (WriterToResponse WriteTo) \<Rightarrow>
                             finish (WriteTo w1)
                               [CallCheckCompat, CallDecode,
                                CallSaveFrom (m_Snapshot_Metadata_Index m), CallProcess m]
                         | Some (OtherError err) \<Rightarrow>
                             finish (http_Error w1
                                       (''failed to process raft message ('' @ err @ '')'')
                                       StatusInternalServerError)
                               [CallCheckCompat, CallDecode,
                                CallSaveFrom (m_Snapshot_Metadata_Index m), CallProcess m]
                         | None \<Rightarrow>
                             finish (WriteHeader w1 StatusNoContent)
                               [CallCheckCompat, CallDecode,
                                CallSaveFrom (m_Snapshot_Metadata_Index m), CallProcess m]))))"

record streamHandler =
  st_peerGetter :: peerGetter
  st_r :: Raft
  st_id :: ID
  st_cid :: ID

text \<open>
  The \<open>switch path.Dir(r.URL.Path)\<close> of \<open>streamHandler.ServeHTTP\<close>, lines 218 to 231:
  the cases are tried from the top, \<open>None\<close> is the \<open>default\<close> branch.
\<close>

definition streamType_of_path :: "string \<Rightarrow> streamType option" where
  "streamType_of_path p =
     (let dir = Dir p in
      if dir = RaftStreamPrefix then Some streamTypeMsgApp
      else if dir = Join [RaftStreamPrefix, string_streamTypeMsgApp] then Some streamTypeMsgAppV2
      else if dir = Join [RaftStreamPrefix, string_streamTypeMessage] then Some streamTypeMessage
      else None)"

text \<open>
  \<open>streamHandler.ServeHTTP\<close>, lines 203 to 277. The assertion \<open>w.(http.Flusher)\<close> panics
  on a writer that is no flusher. The handler ends in the wait on the notifier it has
  just handed to the peer, and returns when the peer closes it.
\<close>

definition streamHandler_ServeHTTP ::
    "'v deps \<Rightarrow> streamHandler \<Rightarrow> ResponseWriter \<Rightarrow> Request \<Rightarrow> outcome" where
  "streamHandler_ServeHTTP d h w r =
     (if r_Method r \<noteq> ''GET'' then
        finish (http_Error (w_Header_Set w ''Allow'' ''GET'') ''Method Not Allowed''
                  StatusMethodNotAllowed) []
      else
        let w1 = w_Header_Set (w_Header_Set w ''X-Server-Version'' (version_Version d))
                   ''X-Etcd-Cluster-ID'' (ID_String d (st_cid h)) in
        case checkClusterCompatibilityFromHeader d (r_Header r) (st_cid h) of
          Some err \<Rightarrow> finish (http_Error w1 err StatusPreconditionFailed) [CallCheckCompat]
        | None \<Rightarrow>
            (case streamType_of_path (r_URL_Path r) of
               None \<Rightarrow> finish (http_Error w1 ''invalid path'' StatusNotFound) [CallCheckCompat]
             | Some t \<Rightarrow>
                 (case IDFromString d (Base (r_URL_Path r)) of
                    Inl err \<Rightarrow>
                      finish (http_Error w1 ''invalid from'' StatusNotFound) [CallCheckCompat]
                  | Inr from \<Rightarrow>
                      if IsIDRemoved (st_r h) from then
                        finish (http_Error w1 ''removed member'' StatusGone)
                          [CallCheckCompat, CallIsIDRemoved from]
                      else
                        (case Get (st_peerGetter h) from of
                           None \<Rightarrow>
                             finish (http_Error w1 ''error sender not found'' StatusNotFound)
                               [CallCheckCompat, CallIsIDRemoved from, CallGet from]
                         | Some p \<Rightarrow>
                             if header_Get (r_Header r) ''X-Raft-To'' \<noteq> ID_String d (st_id h) then
                               finish (http_Error w1 ''to field mismatch'' StatusPreconditionFailed)
                                 [CallCheckCompat, CallIsIDRemoved from, CallGet from]
                             else
                               let w2 = WriteHeader w1 StatusOK in
                               if \<not> w_isFlusher w2 then
                                 \<lparr>o_w = w2,
                                  o_calls = [CallCheckCompat, CallIsIDRemoved from, CallGet from],
                                  o_panic = True\<rparr>
                               else
                                 let w3 = Flush w2;
                                     c = newCloseNotifier;
                                     conn = \<lparr>conn_t = t,
                                             conn_termStr = header_Get (r_Header r) ''X-Raft-Term'',
                                             conn_Writer = w3,
                                             conn_Closer = c\<rparr>
                                 in finish w3
                                      [CallCheckCompat, CallIsIDRemoved from, CallGet from,
                                       CallFlush, CallAttach p conn, CallWaitClose c]))))"

text \<open>The writer that net/http hands to a handler: nothing set, nothing written.\<close>

definition newResponseWriter :: ResponseWriter where
  "newResponseWriter =
     \<lparr>w_Header = Map.empty, w_status = None, w_body = [], w_isFlusher = True,
      w_flushed = False\<rparr>"

section \<open>Repeated waits, and one concrete cluster member\<close>

text \<open>\<open>k\<close> waits on the notifier, one after the other; \<open>None\<close> when one of them blocks.\<close>

primrec wait_times :: "nat \<Rightarrow> closeNotifier \<Rightarrow> closeNotifier option" where
  "wait_times 0 n = Some n"
| "wait_times (Suc k) n =
     (case wait_closeNotify n of None \<Rightarrow> None | Some n' \<Rightarrow> wait_times k n')"

text \<open>
  Concrete collaborators and requests, at which the theorems below are instantiated.
  The member has cluster id 1 and member id 1. Versions are numbers, and a sender is
  too old below version 2; the sender is at version 1 when it says \<open>1.0.0\<close>, else at 2.
  Ids are written \<open>1\<close> and \<open>7\<close>. A body decodes to a snapshot message when its first
  byte is 7.
\<close>

definition msg_app0 :: Message where
  "msg_app0 = \<lparr>m_Type = MsgApp, m_To = 1, m_From = 7, m_Term = 3,
               m_Snapshot_Metadata_Index = 0\<rparr>"

definition msg_snap0 :: Message where
  "msg_snap0 = \<lparr>m_Type = MsgSnap, m_To = 1, m_From = 7, m_Term = 3,
                m_Snapshot_Metadata_Index = 5\<rparr>"

definition deps0 :: "nat deps" where
  "deps0 =
     \<lparr>checkVersionCompability =
        (\<lambda>name server minCluster. if server < 2 then Some ''remote version is too low'' else None),
      serverVersion = (\<lambda>h. if header_Get h ''X-Server-Version'' = ''1.0.0'' then 1 else 2),
      minClusterVersion = (\<lambda>h. 2),
      ID_String = (\<lambda>i. if i = 1 then ''1'' else if i = 7 then ''7'' else ''ff''),
      IDFromString =
        (\<lambda>s. if s = ''1'' then Inr 1 else if s = ''7'' then Inr 7 else Inl ''invalid syntax''),
      Unmarshal = (\<lambda>b. if b = [] then Inl ''unexpected EOF'' else Inr msg_app0),
      decode = (\<lambda>b. case b_data b of
                       [] \<Rightarrow> Inl ''unexpected EOF''
                     | x # xs \<Rightarrow>
                         Inr (if x = 7 then msg_snap0 else msg_app0, b\<lparr>b_data := xs\<rparr>)),
      version_Version = ''2.3.0''\<rparr>"

definition raft0 :: Raft where
  "raft0 = \<lparr>Process = (\<lambda>m. None), IsIDRemoved = (\<lambda>i. False)\<rparr>"

text \<open>An engine that has recorded member 7 as removed.\<close>

definition raft_removed7 :: Raft where
  "raft_removed7 = \<lparr>Process = (\<lambda>m. None), IsIDRemoved = (\<lambda>i. i = 7)\<rparr>"

text \<open>An engine that rejects every message with an error that renders itself.\<close>

definition raft_rejecting :: Raft where
  "raft_rejecting =
     \<lparr>Process =
        (\<lambda>m. Some (WriterToResponse
                (\<lambda>w. Write (WriteHeader (w_Header_Set w ''Content-Type'' ''application/json'') 403)
                        ''{}''))),
      IsIDRemoved = (\<lambda>i. False)\<rparr>"

definition handler0 :: handler where
  "handler0 = \<lparr>h_r = raft0, h_cid = 1\<rparr>"

definition snapSaver0 :: SnapshotSaver where
  "snapSaver0 = \<lparr>SaveFrom = (\<lambda>b i. None)\<rparr>"

text \<open>A snapshot store that cannot save.\<close>

definition snapSaver_failing :: SnapshotSaver where
  "snapSaver_failing = \<lparr>SaveFrom = (\<lambda>b i. Some ''no space left on device'')\<rparr>"

definition snapshotHandler0 :: snapshotHandler where
  "snapshotHandler0 = \<lparr>sh_r = raft0, sh_snapSaver = snapSaver0, sh_cid = 1\<rparr>"

definition peerGetter0 :: peerGetter where
  "peerGetter0 = \<lparr>Get = (\<lambda>i. if i = 7 then Some (Peer 7) else None)\<rparr>"

definition streamHandler0 :: streamHandler where
  "streamHandler0 = \<lparr>st_peerGetter = peerGetter0, st_r = raft0, st_id = 1, st_cid = 1\<rparr>"

definition handler_rejecting :: handler where
  "handler_rejecting = \<lparr>h_r = raft_rejecting, h_cid = 1\<rparr>"

definition snapshotHandler_failing :: snapshotHandler where
  "snapshotHandler_failing = \<lparr>sh_r = raft0, sh_snapSaver = snapSaver_failing, sh_cid = 1\<rparr>"

definition streamHandler_removed7 :: streamHandler where
  "streamHandler_removed7 =
     \<lparr>st_peerGetter = peerGetter0, st_r = raft_removed7, st_id = 1, st_cid = 1\<rparr>"

definition body0 :: body where
  "body0 = \<lparr>b_data = [7, 1, 2], b_err = None\<rparr>"

definition body_failing :: body where
  "body_failing = \<lparr>b_data = [7], b_err = Some ''unexpected EOF''\<rparr>"

definition body_oversized :: body where
  "body_oversized = \<lparr>b_data = replicate 65537 0, b_err = None\<rparr>"

definition req_post_ok :: Request where
  "req_post_ok =
     \<lparr>r_Method = ''POST'', r_URL_Path = ''/raft'',
      r_Header = [''X-Etcd-Cluster-ID'' \<mapsto> [''1'']], r_Body = body0\<rparr>"

definition req_post_foreign :: Request where
  "req_post_foreign =
     \<lparr>r_Method = ''POST'', r_URL_Path = ''/raft'',
      r_Header = [''X-Etcd-Cluster-ID'' \<mapsto> [''7'']], r_Body = body0\<rparr>"

text \<open>A request that fails the version check and names a foreign cluster.\<close>

definition req_post_old_foreign :: Request where
  "req_post_old_foreign =
     \<lparr>r_Method = ''POST'', r_URL_Path = ''/raft'',
      r_Header = [''X-Etcd-Cluster-ID'' \<mapsto> [''7''], ''X-Server-Version'' \<mapsto> [''1.0.0'']],
      r_Body = body0\<rparr>"

definition req_get_ok :: Request where
  "req_get_ok =
     \<lparr>r_Method = ''GET'', r_URL_Path = ''/raft/stream/7'',
      r_Header = [''X-Etcd-Cluster-ID'' \<mapsto> [''1''], ''X-Raft-To'' \<mapsto> [''1'']],
      r_Body = \<lparr>b_data = [], b_err = None\<rparr>\<rparr>"

definition req_get_foreign :: Request where
  "req_get_foreign =
     \<lparr>r_Method = ''GET'', r_URL_Path = ''/raft/stream/7'',
      r_Header = [''X-Etcd-Cluster-ID'' \<mapsto> [''7''], ''X-Raft-To'' \<mapsto> [''1'']],
      r_Body = \<lparr>b_data = [], b_err = None\<rparr>\<rparr>"

text \<open>A stream request whose path has a doubled slash before the sender id.\<close>

definition req_get_double_slash :: Request where
  "req_get_double_slash =
     \<lparr>r_Method = ''GET'', r_URL_Path = ''/raft/stream//7'',
      r_Header = [''X-Etcd-Cluster-ID'' \<mapsto> [''1''], ''X-Raft-To'' \<mapsto> [''1'']],
      r_Body = \<lparr>b_data = [], b_err = None\<rparr>\<rparr>"

section \<open>Predicates of the statements\<close>

text \<open>
  \<open>segment_after pre p\<close>: the path \<open>p\<close> is \<open>pre\<close> followed by one path segment, that is,
  by characters other than the slash. With \<open>pre = /raft/stream/\<close> these are the paths
  of the form \<open>/raft/stream/<id>\<close>.
\<close>

definition segment_after :: "string \<Rightarrow> string \<Rightarrow> bool" where
  "segment_after pre p \<longleftrightarrow> take (length pre) p = pre \<and> CHR ''/'' \<notin> set (drop (length pre) p)"

text \<open>
  \<open>keeps_header key raft\<close>: an error of the engine that renders itself leaves the
  response header \<open>key\<close> as it finds it.
\<close>

definition keeps_header :: "string \<Rightarrow> Raft \<Rightarrow> bool" where
  "keeps_header key raft \<longleftrightarrow>
     (\<forall>m WriteTo w. Process raft m = Some (WriterToResponse WriteTo) \<longrightarrow>
        header_Get (w_Header (WriteTo w)) key = header_Get (w_Header w) key)"

section \<open>Auxiliary facts\<close>

lemmas fixture_defs =
  deps0_def msg_app0_def msg_snap0_def raft0_def handler0_def snapSaver0_def
  snapshotHandler0_def peerGetter0_def streamHandler0_def body0_def newResponseWriter_def
  req_post_ok_def req_get_ok_def

lemma w_status_w_Header_Set [simp]: "w_status (w_Header_Set w key v) = w_status w"
  by (simp add: w_Header_Set_def)

lemma w_body_w_Header_Set [simp]: "w_body (w_Header_Set w key v) = w_body w"
  by (simp add: w_Header_Set_def)

lemma w_isFlusher_w_Header_Set [simp]: "w_isFlusher (w_Header_Set w key v) = w_isFlusher w"
  by (simp add: w_Header_Set_def)

lemma w_status_WriteHeader [simp]:
  "w_status w = None \<Longrightarrow> w_status (WriteHeader w code) = Some code"
  by (simp add: WriteHeader_def)

lemma w_isFlusher_WriteHeader [simp]: "w_isFlusher (WriteHeader w code) = w_isFlusher w"
  by (simp add: WriteHeader_def)

lemma w_status_Flush [simp]: "w_status w = Some code \<Longrightarrow> w_status (Flush w) = Some code"
  by (simp add: Flush_def WriteHeader_def)

lemma w_status_http_Error [simp]:
  "w_status w = None \<Longrightarrow> w_status (http_Error w err code) = Some code"
  by (simp add: http_Error_def Write_def WriteHeader_def Let_def)

lemma w_body_http_Error [simp]: "w_body (http_Error w err code) = w_body w @ err @ [CHR 0x0A]"
  by (simp add: http_Error_def Write_def WriteHeader_def Let_def w_Header_Set_def)

lemma header_Get_w_Header_Set [simp]:
  "header_Get (w_Header (w_Header_Set w key v)) key' =
     (if key' = key then v else header_Get (w_Header w) key')"
  by (simp add: w_Header_Set_def header_Set_def header_Get_def)

lemma w_Header_WriteHeader [simp]: "w_Header (WriteHeader w code) = w_Header w"
  by (simp add: WriteHeader_def)

lemma w_Header_Write [simp]: "w_Header (Write w s) = w_Header w"
  by (simp add: Write_def Let_def)

lemma w_Header_Flush [simp]: "w_Header (Flush w) = w_Header w"
  by (simp add: Flush_def)

lemma header_Get_http_Error [simp]:
  "key \<noteq> ''Content-Type'' \<Longrightarrow> key \<noteq> ''X-Content-Type-Options'' \<Longrightarrow>
   header_Get (w_Header (http_Error w err code)) key = header_Get (w_Header w) key"
  by (simp add: http_Error_def)

lemma o_w_finish [simp]: "o_w (finish w calls) = w"
  by (simp add: finish_def)

lemma o_calls_finish [simp]: "o_calls (finish w calls) = calls"
  by (simp add: finish_def)

lemma checkCompat_mismatch:
  "header_Get header ''X-Etcd-Cluster-ID'' \<noteq> ID_String d cid \<Longrightarrow>
   \<exists>err. checkClusterCompatibilityFromHeader d header cid = Some err"
  by (simp add: checkClusterCompatibilityFromHeader_def split: option.splits)

lemma header_Get_empty [simp]: "header_Get Map.empty key = []"
  by (simp add: header_Get_def)

lemma header_Get_upd [simp]:
  "header_Get (h(key \<mapsto> [v])) key' = (if key' = key then v else header_Get h key')"
  by (simp add: header_Get_def)

lemma ReadAll_fails:
  "ConnReadLimitByte < length (b_data b) \<or> b_err b \<noteq> None \<Longrightarrow>
   \<exists>err. ReadAll_LimitedBufferReader b ConnReadLimitByte = Inl err"
  by (auto simp: ReadAll_LimitedBufferReader_def)

lemma keeps_raft0: "keeps_header key raft0"
  by (simp add: keeps_header_def raft0_def)

lemma keeps_raft_rejecting: "keeps_header ''X-Etcd-Cluster-ID'' raft_rejecting"
  by (simp add: keeps_header_def raft_rejecting_def)

subsection \<open>The directory of a path that ends in one segment\<close>

lemma LastIndex_absent: "c \<notin> set ys \<Longrightarrow> LastIndex ys c = - 1"
  by (induction ys) (auto simp: Let_def)

lemma LastIndex_last: "c \<notin> set ys \<Longrightarrow> LastIndex (xs @ c # ys) c = int (length xs)"
  by (induction xs) (auto simp: Let_def LastIndex_absent)

lemma Split_last_slash:
  "CHR ''/'' \<notin> set ys \<Longrightarrow> Split (xs @ CHR ''/'' # ys) = (xs @ ''/'', ys)"
proof -
  assume "CHR ''/'' \<notin> set ys"
  then have "LastIndex (xs @ CHR ''/'' # ys) CHR ''/'' = int (length xs)"
    by (rule LastIndex_last)
  moreover have "nat (int (length xs) + 1) = Suc (length xs)"
    by simp
  ultimately show ?thesis
    by (simp add: Split_def)
qed

lemma Dir_segment:
  assumes "segment_after (pre @ ''/'') p"
  shows "Dir p = Clean (pre @ ''/'')"
proof -
  from assms have p: "p = pre @ CHR ''/'' # drop (Suc (length pre)) p"
    and id: "CHR ''/'' \<notin> set (drop (Suc (length pre)) p)"
    by (simp_all add: segment_after_def)
       (metis append_take_drop_id append.assoc append_Cons append_Nil)
  have "Split p = (pre @ ''/'', drop (Suc (length pre)) p)"
    using Split_last_slash [OF id, of pre] p by simp
  then show ?thesis
    by (simp add: Dir_def)
qed

lemma RaftStreamPrefix_eq: "RaftStreamPrefix = ''/raft/stream''"
  by (simp add: RaftStreamPrefix_def RaftPrefix_def Join_def Clean_def)

lemma Join_msgapp: "Join [''/raft/stream'', string_streamTypeMsgApp] = ''/raft/stream/msgapp''"
  by (simp add: string_streamTypeMsgApp_def Join_def Clean_def)

lemma Join_message: "Join [''/raft/stream'', string_streamTypeMessage] = ''/raft/stream/message''"
  by (simp add: string_streamTypeMessage_def Join_def Clean_def)

lemma streamType_of_path_eq:
  "streamType_of_path p =
     (if Dir p = ''/raft/stream'' then Some streamTypeMsgApp
      else if Dir p = ''/raft/stream/msgapp'' then Some streamTypeMsgAppV2
      else if Dir p = ''/raft/stream/message'' then Some streamTypeMessage
      else None)"
  by (simp add: streamType_of_path_def RaftStreamPrefix_eq Join_msgapp Join_message Let_def)

lemma Clean_stream: "Clean ''/raft/stream/'' = ''/raft/stream''"
  by (simp add: Clean_def)

lemma Clean_msgapp: "Clean ''/raft/stream/msgapp/'' = ''/raft/stream/msgapp''"
  by (simp add: Clean_def)

lemma Clean_message: "Clean ''/raft/stream/message/'' = ''/raft/stream/message''"
  by (simp add: Clean_def)

subsection \<open>The handlers at the concrete requests\<close>

lemmas run_defs =
  checkClusterCompatibilityFromHeader_def ReadAll_LimitedBufferReader_def ConnReadLimitByte_def
  streamType_of_path_eq Dir_def Split_def Clean_def Base_def strip_slashes.simps
  newCloseNotifier_def

section \<open>The compatibility gate\<close>

text \<open>
  C1, as amended. A request with the method the handler accepts (POST for the message
  and the snapshot handler, GET for the stream handler) whose \<open>X-Etcd-Cluster-ID\<close>
  header differs from the receiver's cluster id is answered with status 412, whatever
  its path, its other headers and its body are. The writer is as net/http hands it over:
  no status written yet.
\<close>

theorem cluster_ID_mismatch_412:
  assumes "w_status w = None"
  shows "(r_Method r1 = ''POST''
            \<and> header_Get (r_Header r1) ''X-Etcd-Cluster-ID'' \<noteq> ID_String d (h_cid h1) \<longrightarrow>
          w_status (o_w (handler_ServeHTTP d h1 w r1)) = Some StatusPreconditionFailed)
       \<and> (r_Method r2 = ''POST''
            \<and> header_Get (r_Header r2) ''X-Etcd-Cluster-ID'' \<noteq> ID_String d (sh_cid h2) \<longrightarrow>
          w_status (o_w (snapshotHandler_ServeHTTP d h2 w r2)) = Some StatusPreconditionFailed)
       \<and> (r_Method r3 = ''GET''
            \<and> header_Get (r_Header r3) ''X-Etcd-Cluster-ID'' \<noteq> ID_String d (st_cid h3) \<longrightarrow>
          w_status (o_w (streamHandler_ServeHTTP d h3 w r3)) = Some StatusPreconditionFailed)"
proof (intro conjI impI)
  assume a: "r_Method r1 = ''POST''
    \<and> header_Get (r_Header r1) ''X-Etcd-Cluster-ID'' \<noteq> ID_String d (h_cid h1)"
  then obtain err where "checkClusterCompatibilityFromHeader d (r_Header r1) (h_cid h1) = Some err"
    using checkCompat_mismatch by blast
  with a assms show "w_status (o_w (handler_ServeHTTP d h1 w r1)) = Some StatusPreconditionFailed"
    by (simp add: handler_ServeHTTP_def)
next
  assume a: "r_Method r2 = ''POST''
    \<and> header_Get (r_Header r2) ''X-Etcd-Cluster-ID'' \<noteq> ID_String d (sh_cid h2)"
  then obtain err where "checkClusterCompatibilityFromHeader d (r_Header r2) (sh_cid h2) = Some err"
    using checkCompat_mismatch by blast
  with a assms
  show "w_status (o_w (snapshotHandler_ServeHTTP d h2 w r2)) = Some StatusPreconditionFailed"
    by (simp add: snapshotHandler_ServeHTTP_def)
next
  assume a: "r_Method r3 = ''GET''
    \<and> header_Get (r_Header r3) ''X-Etcd-Cluster-ID'' \<noteq> ID_String d (st_cid h3)"
  then obtain err where "checkClusterCompatibilityFromHeader d (r_Header r3) (st_cid h3) = Some err"
    using checkCompat_mismatch by blast
  with a assms
  show "w_status (o_w (streamHandler_ServeHTTP d h3 w r3)) = Some StatusPreconditionFailed"
    by (simp add: streamHandler_ServeHTTP_def)
qed

theorem cluster_ID_mismatch_412_witness:
  "w_status newResponseWriter = None
   \<and> r_Method req_post_foreign = ''POST''
   \<and> header_Get (r_Header req_post_foreign) ''X-Etcd-Cluster-ID'' \<noteq> ID_String deps0 (h_cid handler0)
   \<and> w_status (o_w (handler_ServeHTTP deps0 handler0 newResponseWriter req_post_foreign))
       = Some StatusPreconditionFailed
   \<and> header_Get (r_Header req_post_foreign) ''X-Etcd-Cluster-ID''
       \<noteq> ID_String deps0 (sh_cid snapshotHandler0)
   \<and> w_status (o_w (snapshotHandler_ServeHTTP deps0 snapshotHandler0 newResponseWriter
         req_post_foreign)) = Some StatusPreconditionFailed
   \<and> r_Method req_get_foreign = ''GET''
   \<and> header_Get (r_Header req_get_foreign) ''X-Etcd-Cluster-ID''
       \<noteq> ID_String deps0 (st_cid streamHandler0)
   \<and> w_status (o_w (streamHandler_ServeHTTP deps0 streamHandler0 newResponseWriter
         req_get_foreign)) = Some StatusPreconditionFailed"
proof -
  have fresh: "w_status newResponseWriter = None"
    by (simp add: newResponseWriter_def)
  show ?thesis
    using cluster_ID_mismatch_412 [OF fresh, of req_post_foreign deps0 handler0
        req_post_foreign snapshotHandler0 req_get_foreign streamHandler0]
    by (simp add: fixture_defs req_post_foreign_def req_get_foreign_def)
qed

text \<open>
  C1 as it is stated fails: the method is checked before the cluster id. A GET that
  names a foreign cluster is answered by the message handler with 405, not with 412.
\<close>

theorem cluster_ID_mismatch_wrong_method_counterexample:
  "header_Get (r_Header req_get_foreign) ''X-Etcd-Cluster-ID'' \<noteq> ID_String deps0 (h_cid handler0)
   \<and> w_status (o_w (handler_ServeHTTP deps0 handler0 newResponseWriter req_get_foreign))
       = Some StatusMethodNotAllowed"
  by (simp add: fixture_defs req_get_foreign_def handler_ServeHTTP_def)

text \<open>
  C9. When the headers of a request fail the version check and name a foreign cluster,
  \<open>checkClusterCompatibilityFromHeader\<close> returns the version error, and the 412 response
  of each handler has the body \<open>incompatible version\<close>: the version is checked first.
\<close>

theorem incompatible_version_reported_first:
  assumes version: "checkVersionCompability d (header_Get header ''X-Server-From'')
                      (serverVersion d header) (minClusterVersion d header) = Some verr"
    and cluster: "header_Get header ''X-Etcd-Cluster-ID'' \<noteq> ID_String d cid"
    and fresh: "w_status w = None" "w_body w = []"
  shows "checkClusterCompatibilityFromHeader d header cid = Some errIncompatibleVersion
       \<and> (r_Method r1 = ''POST'' \<and> r_Header r1 = header \<and> h_cid h1 = cid \<longrightarrow>
            w_status (o_w (handler_ServeHTTP d h1 w r1)) = Some StatusPreconditionFailed
            \<and> w_body (o_w (handler_ServeHTTP d h1 w r1)) = ''incompatible version'' @ [CHR 0x0A])
       \<and> (r_Method r2 = ''POST'' \<and> r_Header r2 = header \<and> sh_cid h2 = cid \<longrightarrow>
            w_status (o_w (snapshotHandler_ServeHTTP d h2 w r2)) = Some StatusPreconditionFailed
            \<and> w_body (o_w (snapshotHandler_ServeHTTP d h2 w r2))
                = ''incompatible version'' @ [CHR 0x0A])
       \<and> (r_Method r3 = ''GET'' \<and> r_Header r3 = header \<and> st_cid h3 = cid \<longrightarrow>
            w_status (o_w (streamHandler_ServeHTTP d h3 w r3)) = Some StatusPreconditionFailed
            \<and> w_body (o_w (streamHandler_ServeHTTP d h3 w r3))
                = ''incompatible version'' @ [CHR 0x0A])"
proof -
  have c: "checkClusterCompatibilityFromHeader d header cid = Some errIncompatibleVersion"
    using version by (simp add: checkClusterCompatibilityFromHeader_def)
  show ?thesis
    using c fresh
    by (simp add: handler_ServeHTTP_def snapshotHandler_ServeHTTP_def
        streamHandler_ServeHTTP_def errIncompatibleVersion_def)
qed

theorem incompatible_version_reported_first_witness:
  "checkVersionCompability deps0 (header_Get (r_Header req_post_old_foreign) ''X-Server-From'')
     (serverVersion deps0 (r_Header req_post_old_foreign))
     (minClusterVersion deps0 (r_Header req_post_old_foreign)) = Some ''remote version is too low''
   \<and> header_Get (r_Header req_post_old_foreign) ''X-Etcd-Cluster-ID'' \<noteq> ID_String deps0 1
   \<and> w_status newResponseWriter = None \<and> w_body newResponseWriter = []
   \<and> r_Method req_post_old_foreign = ''POST'' \<and> h_cid handler0 = 1
   \<and> sh_cid snapshotHandler0 = 1 \<and> st_cid streamHandler0 = 1
   \<and> r_Method (req_post_old_foreign\<lparr>r_Method := ''GET''\<rparr>) = ''GET''
   \<and> w_status (o_w (handler_ServeHTTP deps0 handler0 newResponseWriter req_post_old_foreign))
       = Some StatusPreconditionFailed
   \<and> w_body (o_w (handler_ServeHTTP deps0 handler0 newResponseWriter req_post_old_foreign))
       = ''incompatible version'' @ [CHR 0x0A]
   \<and> w_body (o_w (snapshotHandler_ServeHTTP deps0 snapshotHandler0 newResponseWriter
        req_post_old_foreign)) = ''incompatible version'' @ [CHR 0x0A]
   \<and> w_body (o_w (streamHandler_ServeHTTP deps0 streamHandler0 newResponseWriter
        (req_post_old_foreign\<lparr>r_Method := ''GET''\<rparr>))) = ''incompatible version'' @ [CHR 0x0A]"
proof -
  have v: "checkVersionCompability deps0
             (header_Get (r_Header req_post_old_foreign) ''X-Server-From'')
             (serverVersion deps0 (r_Header req_post_old_foreign))
             (minClusterVersion deps0 (r_Header req_post_old_foreign))
           = Some ''remote version is too low''"
    by (simp add: fixture_defs req_post_old_foreign_def)
  have c: "header_Get (r_Header req_post_old_foreign) ''X-Etcd-Cluster-ID'' \<noteq> ID_String deps0 1"
    by (simp add: fixture_defs req_post_old_foreign_def)
  have f: "w_status newResponseWriter = None" "w_body newResponseWriter = []"
    by (simp_all add: newResponseWriter_def)
  show ?thesis
    using v c f
      incompatible_version_reported_first [OF v c f, of req_post_old_foreign handler0
        req_post_old_foreign snapshotHandler0 "req_post_old_foreign\<lparr>r_Method := ''GET''\<rparr>"
        streamHandler0]
    by (simp add: handler0_def snapshotHandler0_def streamHandler0_def req_post_old_foreign_def)
qed

section \<open>The cluster id on the response\<close>

text \<open>
  C2, as amended. For every request with the method the handler accepts, whatever the
  outcome (204, 200, 412, 400, 404, 410, 500, the rendering of an engine error), the
  response carries the \<open>X-Etcd-Cluster-ID\<close> header set to the receiver's cluster id,
  provided that an engine error that renders itself leaves that header in place.
\<close>

theorem cluster_ID_echoed:
  "(r_Method r1 = ''POST'' \<and> keeps_header ''X-Etcd-Cluster-ID'' (h_r h1) \<longrightarrow>
      header_Get (w_Header (o_w (handler_ServeHTTP d h1 w r1))) ''X-Etcd-Cluster-ID''
        = ID_String d (h_cid h1))
   \<and> (r_Method r2 = ''POST'' \<and> keeps_header ''X-Etcd-Cluster-ID'' (sh_r h2) \<longrightarrow>
      header_Get (w_Header (o_w (snapshotHandler_ServeHTTP d h2 w r2))) ''X-Etcd-Cluster-ID''
        = ID_String d (sh_cid h2))
   \<and> (r_Method r3 = ''GET'' \<longrightarrow>
      header_Get (w_Header (o_w (streamHandler_ServeHTTP d h3 w r3))) ''X-Etcd-Cluster-ID''
        = ID_String d (st_cid h3))"
proof (intro conjI impI)
  assume "r_Method r1 = ''POST'' \<and> keeps_header ''X-Etcd-Cluster-ID'' (h_r h1)"
  then show "header_Get (w_Header (o_w (handler_ServeHTTP d h1 w r1))) ''X-Etcd-Cluster-ID''
        = ID_String d (h_cid h1)"
    by (auto simp: handler_ServeHTTP_def keeps_header_def Let_def
        split: option.splits sum.splits process_error.splits)
next
  assume "r_Method r2 = ''POST'' \<and> keeps_header ''X-Etcd-Cluster-ID'' (sh_r h2)"
  then show "header_Get (w_Header (o_w (snapshotHandler_ServeHTTP d h2 w r2))) ''X-Etcd-Cluster-ID''
        = ID_String d (sh_cid h2)"
    by (auto simp: snapshotHandler_ServeHTTP_def keeps_header_def Let_def
        split: option.splits sum.splits process_error.splits prod.splits)
next
  assume "r_Method r3 = ''GET''"
  then show "header_Get (w_Header (o_w (streamHandler_ServeHTTP d h3 w r3))) ''X-Etcd-Cluster-ID''
        = ID_String d (st_cid h3)"
    by (auto simp: streamHandler_ServeHTTP_def Let_def split: option.splits sum.splits)
qed

theorem cluster_ID_echoed_witness:
  "r_Method req_post_ok = ''POST''
   \<and> keeps_header ''X-Etcd-Cluster-ID'' (h_r handler_rejecting)
   \<and> w_status (o_w (handler_ServeHTTP deps0 handler_rejecting newResponseWriter req_post_ok))
       = Some 403
   \<and> header_Get (w_Header (o_w (handler_ServeHTTP deps0 handler_rejecting newResponseWriter
        req_post_ok))) ''X-Etcd-Cluster-ID'' = ''1''
   \<and> keeps_header ''X-Etcd-Cluster-ID'' (sh_r snapshotHandler0)
   \<and> w_status (o_w (snapshotHandler_ServeHTTP deps0 snapshotHandler0 newResponseWriter
        req_post_ok)) = Some StatusNoContent
   \<and> header_Get (w_Header (o_w (snapshotHandler_ServeHTTP deps0 snapshotHandler0
        newResponseWriter req_post_ok))) ''X-Etcd-Cluster-ID'' = ''1''
   \<and> r_Method req_get_ok = ''GET''
   \<and> w_status (o_w (streamHandler_ServeHTTP deps0 streamHandler0 newResponseWriter req_get_ok))
       = Some StatusOK
   \<and> header_Get (w_Header (o_w (streamHandler_ServeHTTP deps0 streamHandler0
        newResponseWriter req_get_ok))) ''X-Etcd-Cluster-ID'' = ''1''"
proof -
  have k1: "keeps_header ''X-Etcd-Cluster-ID'' (h_r handler_rejecting)"
    using keeps_raft_rejecting by (simp add: handler_rejecting_def)
  have k2: "keeps_header ''X-Etcd-Cluster-ID'' (sh_r snapshotHandler0)"
    using keeps_raft0 by (simp add: snapshotHandler0_def)
  have s1: "w_status (o_w (handler_ServeHTTP deps0 handler_rejecting newResponseWriter
        req_post_ok)) = Some 403"
    by (simp add: handler_ServeHTTP_def fixture_defs raft_rejecting_def handler_rejecting_def
        run_defs Write_def WriteHeader_def w_Header_Set_def)
  have s2: "w_status (o_w (snapshotHandler_ServeHTTP deps0 snapshotHandler0 newResponseWriter
        req_post_ok)) = Some StatusNoContent"
    by (simp add: snapshotHandler_ServeHTTP_def fixture_defs run_defs)
  have s3: "w_status (o_w (streamHandler_ServeHTTP deps0 streamHandler0 newResponseWriter
        req_get_ok)) = Some StatusOK"
    by (simp add: streamHandler_ServeHTTP_def fixture_defs run_defs Let_def)
  show ?thesis
    using s1 s2 s3 k1 k2
      cluster_ID_echoed [of req_post_ok handler_rejecting deps0 newResponseWriter req_post_ok
        snapshotHandler0 req_get_ok streamHandler0]
    by (simp add: req_post_ok_def req_get_ok_def snapshotHandler0_def streamHandler0_def
        handler_rejecting_def deps0_def)
qed

text \<open>
  C2 as it is stated fails for the 405 response: the handlers set the header after the
  method check. The message handler answers a GET with 405 and no \<open>X-Etcd-Cluster-ID\<close>.
\<close>

theorem cluster_ID_not_echoed_on_405_counterexample:
  "w_status (o_w (handler_ServeHTTP deps0 handler0 newResponseWriter req_get_ok))
     = Some StatusMethodNotAllowed
   \<and> header_Get (w_Header (o_w (handler_ServeHTTP deps0 handler0 newResponseWriter req_get_ok)))
        ''X-Etcd-Cluster-ID'' = []
   \<and> ID_String deps0 (h_cid handler0) = ''1''"
  by (simp add: handler_ServeHTTP_def fixture_defs)

section \<open>The message handler\<close>

text \<open>
  C3, as amended. When the body of a request holds more than \<open>ConnReadLimitByte\<close> bytes
  or its read fails, the message handler never answers 500 and never calls the decode
  step (\<open>Unmarshal\<close>); and when the request is a POST that passes the compatibility
  check, the answer is 400.
\<close>

theorem unreadable_body_400:
  assumes body: "ConnReadLimitByte < length (b_data (r_Body r)) \<or> b_err (r_Body r) \<noteq> None"
    and fresh: "w_status w = None"
  shows "w_status (o_w (handler_ServeHTTP d h w r)) \<noteq> Some StatusInternalServerError
       \<and> (\<forall>b. CallUnmarshal b \<notin> set (o_calls (handler_ServeHTTP d h w r)))
       \<and> (r_Method r = ''POST''
            \<and> checkClusterCompatibilityFromHeader d (r_Header r) (h_cid h) = None \<longrightarrow>
          w_status (o_w (handler_ServeHTTP d h w r)) = Some StatusBadRequest)"
proof -
  obtain err where "ReadAll_LimitedBufferReader (r_Body r) ConnReadLimitByte = Inl err"
    using ReadAll_fails [OF body] by blast
  with fresh show ?thesis
    by (simp add: handler_ServeHTTP_def Let_def split: option.splits)
qed

theorem unreadable_body_400_witness:
  "ConnReadLimitByte < length (b_data body_oversized)
   \<and> b_err body_failing \<noteq> None
   \<and> w_status newResponseWriter = None
   \<and> r_Method req_post_ok = ''POST''
   \<and> checkClusterCompatibilityFromHeader deps0 (r_Header req_post_ok) (h_cid handler0) = None
   \<and> w_status (o_w (handler_ServeHTTP deps0 handler0 newResponseWriter
        (req_post_ok\<lparr>r_Body := body_oversized\<rparr>))) = Some StatusBadRequest
   \<and> w_status (o_w (handler_ServeHTTP deps0 handler0 newResponseWriter
        (req_post_ok\<lparr>r_Body := body_failing\<rparr>))) = Some StatusBadRequest
   \<and> o_calls (handler_ServeHTTP deps0 handler0 newResponseWriter
        (req_post_ok\<lparr>r_Body := body_failing\<rparr>)) = [CallCheckCompat, CallReadAll]"
proof -
  have big: "ConnReadLimitByte < length (b_data (r_Body (req_post_ok\<lparr>r_Body := body_oversized\<rparr>)))
             \<or> b_err (r_Body (req_post_ok\<lparr>r_Body := body_oversized\<rparr>)) \<noteq> None"
    by (simp add: body_oversized_def ConnReadLimitByte_def)
  have bad: "ConnReadLimitByte < length (b_data (r_Body (req_post_ok\<lparr>r_Body := body_failing\<rparr>)))
             \<or> b_err (r_Body (req_post_ok\<lparr>r_Body := body_failing\<rparr>)) \<noteq> None"
    by (simp add: body_failing_def)
  have fresh: "w_status newResponseWriter = None"
    by (simp add: newResponseWriter_def)
  have compat: "checkClusterCompatibilityFromHeader deps0 (r_Header req_post_ok) (h_cid handler0)
                = None"
    by (simp add: checkClusterCompatibilityFromHeader_def fixture_defs)
  have calls: "o_calls (handler_ServeHTTP deps0 handler0 newResponseWriter
        (req_post_ok\<lparr>r_Body := body_failing\<rparr>)) = [CallCheckCompat, CallReadAll]"
    by (simp add: handler_ServeHTTP_def fixture_defs body_failing_def run_defs)
  show ?thesis
    using unreadable_body_400 [OF big fresh, of deps0 handler0]
      unreadable_body_400 [OF bad fresh, of deps0 handler0] compat calls fresh
    by (simp add: req_post_ok_def body_oversized_def body_failing_def ConnReadLimitByte_def)
qed

text \<open>
  C3 as it is stated fails: the compatibility check comes before the read. A POST from
  a foreign cluster whose body cannot be read is answered with 412, not with 400.
\<close>

theorem unreadable_body_foreign_cluster_counterexample:
  "r_Method (req_post_foreign\<lparr>r_Body := body_failing\<rparr>) = ''POST''
   \<and> b_err (r_Body (req_post_foreign\<lparr>r_Body := body_failing\<rparr>)) = Some ''unexpected EOF''
   \<and> w_status (o_w (handler_ServeHTTP deps0 handler0 newResponseWriter
        (req_post_foreign\<lparr>r_Body := body_failing\<rparr>))) = Some StatusPreconditionFailed"
  by (simp add: handler_ServeHTTP_def fixture_defs req_post_foreign_def body_failing_def run_defs)

section \<open>The order of the steps\<close>

text \<open>
  C5. The calls of every request are an initial part of one fixed sequence: in the
  message handler the compatibility check, the read of the body, \<open>Unmarshal\<close>, \<open>Process\<close>;
  in the snapshot handler the compatibility check, \<open>decode\<close>, \<open>SaveFrom\<close>, \<open>Process\<close>. So
  the check comes before any read of the body, and the reads and the decoding come before
  \<open>Process\<close>. When \<open>Process\<close> is called, and so whenever the handler answers 204, every
  step before it has been taken, in this order, and has succeeded.
\<close>

theorem check_read_dispatch_order:
  "(\<exists>b m. prefix (o_calls (handler_ServeHTTP d h1 w r1))
             [CallCheckCompat, CallReadAll, CallUnmarshal b, CallProcess m])
   \<and> (CallProcess m1 \<in> set (o_calls (handler_ServeHTTP d h1 w r1)) \<longrightarrow>
        (\<exists>b. checkClusterCompatibilityFromHeader d (r_Header r1) (h_cid h1) = None
            \<and> ReadAll_LimitedBufferReader (r_Body r1) ConnReadLimitByte = Inr b
            \<and> Unmarshal d b = Inr m1
            \<and> o_calls (handler_ServeHTTP d h1 w r1)
                = [CallCheckCompat, CallReadAll, CallUnmarshal b, CallProcess m1]))
   \<and> (w_status w = None
        \<and> w_status (o_w (handler_ServeHTTP d h1 w r1)) = Some StatusNoContent \<longrightarrow>
        (\<exists>m. CallProcess m \<in> set (o_calls (handler_ServeHTTP d h1 w r1))))
   \<and> (\<exists>i m. prefix (o_calls (snapshotHandler_ServeHTTP d h2 w r2))
             [CallCheckCompat, CallDecode, CallSaveFrom i, CallProcess m])
   \<and> (CallProcess m2 \<in> set (o_calls (snapshotHandler_ServeHTTP d h2 w r2)) \<longrightarrow>
        (\<exists>rest. checkClusterCompatibilityFromHeader d (r_Header r2) (sh_cid h2) = None
            \<and> decode d (r_Body r2) = Inr (m2, rest)
            \<and> SaveFrom (sh_snapSaver h2) rest (m_Snapshot_Metadata_Index m2) = None
            \<and> o_calls (snapshotHandler_ServeHTTP d h2 w r2)
                = [CallCheckCompat, CallDecode, CallSaveFrom (m_Snapshot_Metadata_Index m2),
                   CallProcess m2]))
   \<and> (w_status w = None
        \<and> w_status (o_w (snapshotHandler_ServeHTTP d h2 w r2)) = Some StatusNoContent \<longrightarrow>
        (\<exists>m. CallProcess m \<in> set (o_calls (snapshotHandler_ServeHTTP d h2 w r2))))"
proof (intro conjI impI)
  show "\<exists>b m. prefix (o_calls (handler_ServeHTTP d h1 w r1))
             [CallCheckCompat, CallReadAll, CallUnmarshal b, CallProcess m]"
    by (auto simp: handler_ServeHTTP_def Let_def
        split: option.splits sum.splits process_error.splits)
next
  assume "CallProcess m1 \<in> set (o_calls (handler_ServeHTTP d h1 w r1))"
  then show "\<exists>b. checkClusterCompatibilityFromHeader d (r_Header r1) (h_cid h1) = None
            \<and> ReadAll_LimitedBufferReader (r_Body r1) ConnReadLimitByte = Inr b
            \<and> Unmarshal d b = Inr m1
            \<and> o_calls (handler_ServeHTTP d h1 w r1)
                = [CallCheckCompat, CallReadAll, CallUnmarshal b, CallProcess m1]"
    by (auto simp: handler_ServeHTTP_def Let_def
        split: option.splits sum.splits process_error.splits if_splits)
next
  assume "w_status w = None
        \<and> w_status (o_w (handler_ServeHTTP d h1 w r1)) = Some StatusNoContent"
  then show "\<exists>m. CallProcess m \<in> set (o_calls (handler_ServeHTTP d h1 w r1))"
    by (auto simp: handler_ServeHTTP_def Let_def
        split: option.splits sum.splits process_error.splits if_splits)
next
  show "\<exists>i m. prefix (o_calls (snapshotHandler_ServeHTTP d h2 w r2))
             [CallCheckCompat, CallDecode, CallSaveFrom i, CallProcess m]"
    by (auto simp: snapshotHandler_ServeHTTP_def Let_def
        split: option.splits sum.splits process_error.splits prod.splits)
next
  assume "CallProcess m2 \<in> set (o_calls (snapshotHandler_ServeHTTP d h2 w r2))"
  then show "\<exists>rest. checkClusterCompatibilityFromHeader d (r_Header r2) (sh_cid h2) = None
            \<and> decode d (r_Body r2) = Inr (m2, rest)
            \<and> SaveFrom (sh_snapSaver h2) rest (m_Snapshot_Metadata_Index m2) = None
            \<and> o_calls (snapshotHandler_ServeHTTP d h2 w r2)
                = [CallCheckCompat, CallDecode, CallSaveFrom (m_Snapshot_Metadata_Index m2),
                   CallProcess m2]"
    by (auto simp: snapshotHandler_ServeHTTP_def Let_def
        split: option.splits sum.splits process_error.splits prod.splits if_splits)
next
  assume "w_status w = None
        \<and> w_status (o_w (snapshotHandler_ServeHTTP d h2 w r2)) = Some StatusNoContent"
  then show "\<exists>m. CallProcess m \<in> set (o_calls (snapshotHandler_ServeHTTP d h2 w r2))"
    by (auto simp: snapshotHandler_ServeHTTP_def Let_def
        split: option.splits sum.splits process_error.splits prod.splits if_splits)
qed

theorem check_read_dispatch_order_witness:
  "w_status newResponseWriter = None
   \<and> o_calls (handler_ServeHTTP deps0 handler0 newResponseWriter req_post_ok)
       = [CallCheckCompat, CallReadAll, CallUnmarshal [7, 1, 2], CallProcess msg_app0]
   \<and> w_status (o_w (handler_ServeHTTP deps0 handler0 newResponseWriter req_post_ok))
       = Some StatusNoContent
   \<and> Unmarshal deps0 [7, 1, 2] = Inr msg_app0
   \<and> o_calls (snapshotHandler_ServeHTTP deps0 snapshotHandler0 newResponseWriter req_post_ok)
       = [CallCheckCompat, CallDecode, CallSaveFrom 5, CallProcess msg_snap0]
   \<and> w_status (o_w (snapshotHandler_ServeHTTP deps0 snapshotHandler0 newResponseWriter
        req_post_ok)) = Some StatusNoContent
   \<and> decode deps0 (r_Body req_post_ok) = Inr (msg_snap0, \<lparr>b_data = [1, 2], b_err = None\<rparr>)"
proof -
  have c1: "o_calls (handler_ServeHTTP deps0 handler0 newResponseWriter req_post_ok)
       = [CallCheckCompat, CallReadAll, CallUnmarshal [7, 1, 2], CallProcess msg_app0]"
    by (simp add: handler_ServeHTTP_def fixture_defs run_defs)
  have c2: "o_calls (snapshotHandler_ServeHTTP deps0 snapshotHandler0 newResponseWriter
        req_post_ok) = [CallCheckCompat, CallDecode, CallSaveFrom 5, CallProcess msg_snap0]"
    by (simp add: snapshotHandler_ServeHTTP_def fixture_defs run_defs)
  have s1: "w_status (o_w (handler_ServeHTTP deps0 handler0 newResponseWriter req_post_ok))
       = Some StatusNoContent"
    by (simp add: handler_ServeHTTP_def fixture_defs run_defs)
  have s2: "w_status (o_w (snapshotHandler_ServeHTTP deps0 snapshotHandler0 newResponseWriter
        req_post_ok)) = Some StatusNoContent"
    by (simp add: snapshotHandler_ServeHTTP_def fixture_defs run_defs)
  have p1: "CallProcess msg_app0
      \<in> set (o_calls (handler_ServeHTTP deps0 handler0 newResponseWriter req_post_ok))"
    by (simp add: c1)
  have p2: "CallProcess msg_snap0
      \<in> set (o_calls (snapshotHandler_ServeHTTP deps0 snapshotHandler0 newResponseWriter
            req_post_ok))"
    by (simp add: c2)
  have f: "w_status newResponseWriter = None"
    by (simp add: newResponseWriter_def)
  from check_read_dispatch_order [of deps0 handler0 newResponseWriter req_post_ok msg_app0
      snapshotHandler0 req_post_ok msg_snap0] p1 p2
  have "(\<exists>b. Unmarshal deps0 b = Inr msg_app0
            \<and> o_calls (handler_ServeHTTP deps0 handler0 newResponseWriter req_post_ok)
                = [CallCheckCompat, CallReadAll, CallUnmarshal b, CallProcess msg_app0])"
    and "(\<exists>rest. decode deps0 (r_Body req_post_ok) = Inr (msg_snap0, rest))"
    by blast+
  with c1 c2 s1 s2 f show ?thesis
    by (simp add: fixture_defs)
qed

section \<open>The snapshot handler\<close>

text \<open>
  C6. For a POST to the snapshot handler that passes the compatibility check and
  decodes to a message of type \<open>MsgSnap\<close>: when \<open>SaveFrom\<close> returns an error, the answer
  is 500 and \<open>Process\<close> is not called. For every request: when \<open>Process\<close> is called,
  \<open>SaveFrom\<close> has been called before it and has returned without error.
\<close>

theorem SaveFrom_error_500:
  "(w_status w = None \<and> r_Method r = ''POST''
      \<and> checkClusterCompatibilityFromHeader d (r_Header r) (sh_cid h) = None
      \<and> decode d (r_Body r) = Inr (m, rest) \<and> m_Type m = MsgSnap
      \<and> SaveFrom (sh_snapSaver h) rest (m_Snapshot_Metadata_Index m) = Some err \<longrightarrow>
    w_status (o_w (snapshotHandler_ServeHTTP d h w r)) = Some StatusInternalServerError
    \<and> (\<forall>m'. CallProcess m' \<notin> set (o_calls (snapshotHandler_ServeHTTP d h w r))))
   \<and> (CallProcess m' \<in> set (o_calls (snapshotHandler_ServeHTTP d h w r)) \<longrightarrow>
        (\<exists>rest'. decode d (r_Body r) = Inr (m', rest')
           \<and> SaveFrom (sh_snapSaver h) rest' (m_Snapshot_Metadata_Index m') = None)
        \<and> o_calls (snapshotHandler_ServeHTTP d h w r)
            = [CallCheckCompat, CallDecode, CallSaveFrom (m_Snapshot_Metadata_Index m'),
               CallProcess m'])"
  by (auto simp: snapshotHandler_ServeHTTP_def Let_def
      split: option.splits sum.splits process_error.splits prod.splits if_splits)

theorem SaveFrom_error_500_witness:
  "w_status newResponseWriter = None \<and> r_Method req_post_ok = ''POST''
   \<and> checkClusterCompatibilityFromHeader deps0 (r_Header req_post_ok)
        (sh_cid snapshotHandler_failing) = None
   \<and> decode deps0 (r_Body req_post_ok) = Inr (msg_snap0, \<lparr>b_data = [1, 2], b_err = None\<rparr>)
   \<and> m_Type msg_snap0 = MsgSnap
   \<and> SaveFrom (sh_snapSaver snapshotHandler_failing) \<lparr>b_data = [1, 2], b_err = None\<rparr>
        (m_Snapshot_Metadata_Index msg_snap0) = Some ''no space left on device''
   \<and> w_status (o_w (snapshotHandler_ServeHTTP deps0 snapshotHandler_failing newResponseWriter
        req_post_ok)) = Some StatusInternalServerError
   \<and> o_calls (snapshotHandler_ServeHTTP deps0 snapshotHandler_failing newResponseWriter
        req_post_ok) = [CallCheckCompat, CallDecode, CallSaveFrom 5]
   \<and> CallProcess msg_snap0
        \<in> set (o_calls (snapshotHandler_ServeHTTP deps0 snapshotHandler0 newResponseWriter
              req_post_ok))
   \<and> SaveFrom (sh_snapSaver snapshotHandler0) \<lparr>b_data = [1, 2], b_err = None\<rparr>
        (m_Snapshot_Metadata_Index msg_snap0) = None
   \<and> o_calls (snapshotHandler_ServeHTTP deps0 snapshotHandler0 newResponseWriter req_post_ok)
       = [CallCheckCompat, CallDecode, CallSaveFrom 5, CallProcess msg_snap0]"
proof -
  have pre: "w_status newResponseWriter = None \<and> r_Method req_post_ok = ''POST''
      \<and> checkClusterCompatibilityFromHeader deps0 (r_Header req_post_ok)
           (sh_cid snapshotHandler_failing) = None
      \<and> decode deps0 (r_Body req_post_ok) = Inr (msg_snap0, \<lparr>b_data = [1, 2], b_err = None\<rparr>)
      \<and> m_Type msg_snap0 = MsgSnap
      \<and> SaveFrom (sh_snapSaver snapshotHandler_failing) \<lparr>b_data = [1, 2], b_err = None\<rparr>
           (m_Snapshot_Metadata_Index msg_snap0) = Some ''no space left on device''"
    by (simp add: fixture_defs snapSaver_failing_def snapshotHandler_failing_def run_defs)
  have c1: "o_calls (snapshotHandler_ServeHTTP deps0 snapshotHandler_failing newResponseWriter
        req_post_ok) = [CallCheckCompat, CallDecode, CallSaveFrom 5]"
    by (simp add: snapshotHandler_ServeHTTP_def fixture_defs snapSaver_failing_def
        snapshotHandler_failing_def run_defs)
  have c2: "o_calls (snapshotHandler_ServeHTTP deps0 snapshotHandler0 newResponseWriter
        req_post_ok) = [CallCheckCompat, CallDecode, CallSaveFrom 5, CallProcess msg_snap0]"
    by (simp add: snapshotHandler_ServeHTTP_def fixture_defs run_defs)
  have s0: "SaveFrom (sh_snapSaver snapshotHandler0) \<lparr>b_data = [1, 2], b_err = None\<rparr>
        (m_Snapshot_Metadata_Index msg_snap0) = None"
    by (simp add: fixture_defs)
  from pre SaveFrom_error_500 [of newResponseWriter req_post_ok deps0 snapshotHandler_failing
      msg_snap0 "\<lparr>b_data = [1, 2], b_err = None\<rparr>" "''no space left on device''"]
  have s1: "w_status (o_w (snapshotHandler_ServeHTTP deps0 snapshotHandler_failing
        newResponseWriter req_post_ok)) = Some StatusInternalServerError"
    by blast
  show ?thesis
    using pre c1 c2 s0 s1 by simp
qed

section \<open>The stream handler\<close>

text \<open>
  C4, as amended. The stream type is a function of the URL path alone, decided by
  \<open>path.Dir\<close> of the path, which is the part before the last slash, cleaned. A path
  \<open>/raft/stream/<id>\<close> selects \<open>streamTypeMsgApp\<close> (the legacy type),
  \<open>/raft/stream/msgapp/<id>\<close> selects \<open>streamTypeMsgAppV2\<close> and
  \<open>/raft/stream/message/<id>\<close> selects \<open>streamTypeMessage\<close>, for every \<open>id\<close> without a
  slash. A path whose directory is none of \<open>/raft/stream\<close>, \<open>/raft/stream/msgapp\<close> and
  \<open>/raft/stream/message\<close> selects no type, and a GET with such a path that passes the
  compatibility check is answered with 404 and nothing else is called. The connection
  that the handler attaches to the peer has the type of the path.
\<close>

theorem streamType_by_path:
  "(segment_after ''/raft/stream/'' p1 \<longrightarrow> streamType_of_path p1 = Some streamTypeMsgApp)
   \<and> (segment_after ''/raft/stream/msgapp/'' p2 \<longrightarrow> streamType_of_path p2 = Some streamTypeMsgAppV2)
   \<and> (segment_after ''/raft/stream/message/'' p3 \<longrightarrow> streamType_of_path p3 = Some streamTypeMessage)
   \<and> (Dir p \<noteq> ''/raft/stream'' \<and> Dir p \<noteq> ''/raft/stream/msgapp''
        \<and> Dir p \<noteq> ''/raft/stream/message'' \<longrightarrow> streamType_of_path p = None)
   \<and> (w_status w = None \<and> r_Method r = ''GET''
        \<and> checkClusterCompatibilityFromHeader d (r_Header r) (st_cid h) = None
        \<and> streamType_of_path (r_URL_Path r) = None \<longrightarrow>
       w_status (o_w (streamHandler_ServeHTTP d h w r)) = Some StatusNotFound
       \<and> o_calls (streamHandler_ServeHTTP d h w r) = [CallCheckCompat])
   \<and> (CallAttach peer conn \<in> set (o_calls (streamHandler_ServeHTTP d h w r)) \<longrightarrow>
        streamType_of_path (r_URL_Path r) = Some (conn_t conn))"
proof (intro conjI impI)
  assume "segment_after ''/raft/stream/'' p1"
  then have "Dir p1 = Clean ''/raft/stream/''"
    using Dir_segment [of "''/raft/stream''" p1] by simp
  then show "streamType_of_path p1 = Some streamTypeMsgApp"
    by (simp add: streamType_of_path_eq Clean_stream)
next
  assume "segment_after ''/raft/stream/msgapp/'' p2"
  then have "Dir p2 = Clean ''/raft/stream/msgapp/''"
    using Dir_segment [of "''/raft/stream/msgapp''" p2] by simp
  then show "streamType_of_path p2 = Some streamTypeMsgAppV2"
    by (simp add: streamType_of_path_eq Clean_msgapp)
next
  assume "segment_after ''/raft/stream/message/'' p3"
  then have "Dir p3 = Clean ''/raft/stream/message/''"
    using Dir_segment [of "''/raft/stream/message''" p3] by simp
  then show "streamType_of_path p3 = Some streamTypeMessage"
    by (simp add: streamType_of_path_eq Clean_message)
next
  assume "Dir p \<noteq> ''/raft/stream'' \<and> Dir p \<noteq> ''/raft/stream/msgapp''
        \<and> Dir p \<noteq> ''/raft/stream/message''"
  then show "streamType_of_path p = None"
    by (simp add: streamType_of_path_eq)
next
  assume a: "w_status w = None \<and> r_Method r = ''GET''
        \<and> checkClusterCompatibilityFromHeader d (r_Header r) (st_cid h) = None
        \<and> streamType_of_path (r_URL_Path r) = None"
  then show "w_status (o_w (streamHandler_ServeHTTP d h w r)) = Some StatusNotFound"
    by (simp add: streamHandler_ServeHTTP_def)
  from a show "o_calls (streamHandler_ServeHTTP d h w r) = [CallCheckCompat]"
    by (simp add: streamHandler_ServeHTTP_def)
next
  assume "CallAttach peer conn \<in> set (o_calls (streamHandler_ServeHTTP d h w r))"
  then show "streamType_of_path (r_URL_Path r) = Some (conn_t conn)"
    by (auto simp: streamHandler_ServeHTTP_def Let_def
        split: option.splits sum.splits if_splits)
qed

theorem streamType_by_path_witness:
  "segment_after ''/raft/stream/'' ''/raft/stream/7''
   \<and> streamType_of_path ''/raft/stream/7'' = Some streamTypeMsgApp
   \<and> segment_after ''/raft/stream/msgapp/'' ''/raft/stream/msgapp/7''
   \<and> streamType_of_path ''/raft/stream/msgapp/7'' = Some streamTypeMsgAppV2
   \<and> segment_after ''/raft/stream/message/'' ''/raft/stream/message/7''
   \<and> streamType_of_path ''/raft/stream/message/7'' = Some streamTypeMessage
   \<and> Dir ''/raft/stream/msgappv2/7'' = ''/raft/stream/msgappv2''
   \<and> streamType_of_path ''/raft/stream/msgappv2/7'' = None
   \<and> w_status newResponseWriter = None
   \<and> r_Method (req_get_ok\<lparr>r_URL_Path := ''/raft/stream/msgappv2/7''\<rparr>) = ''GET''
   \<and> checkClusterCompatibilityFromHeader deps0
        (r_Header (req_get_ok\<lparr>r_URL_Path := ''/raft/stream/msgappv2/7''\<rparr>))
        (st_cid streamHandler0) = None
   \<and> w_status (o_w (streamHandler_ServeHTTP deps0 streamHandler0 newResponseWriter
        (req_get_ok\<lparr>r_URL_Path := ''/raft/stream/msgappv2/7''\<rparr>))) = Some StatusNotFound
   \<and> o_calls (streamHandler_ServeHTTP deps0 streamHandler0 newResponseWriter
        (req_get_ok\<lparr>r_URL_Path := ''/raft/stream/message/7''\<rparr>))
       = [CallCheckCompat, CallIsIDRemoved 7, CallGet 7, CallFlush,
          CallAttach (Peer 7)
            \<lparr>conn_t = streamTypeMessage, conn_termStr = [],
             conn_Writer = o_w (streamHandler_ServeHTTP deps0 streamHandler0 newResponseWriter
               (req_get_ok\<lparr>r_URL_Path := ''/raft/stream/message/7''\<rparr>)),
             conn_Closer = newCloseNotifier\<rparr>,
          CallWaitClose newCloseNotifier]"
proof -
  have s1: "segment_after ''/raft/stream/'' ''/raft/stream/7''"
    and s2: "segment_after ''/raft/stream/msgapp/'' ''/raft/stream/msgapp/7''"
    and s3: "segment_after ''/raft/stream/message/'' ''/raft/stream/message/7''"
    by (simp_all add: segment_after_def)
  have d: "Dir ''/raft/stream/msgappv2/7'' = ''/raft/stream/msgappv2''"
    by (simp add: Dir_def Split_def Clean_def)
  have pre: "w_status newResponseWriter = None
     \<and> r_Method (req_get_ok\<lparr>r_URL_Path := ''/raft/stream/msgappv2/7''\<rparr>) = ''GET''
     \<and> checkClusterCompatibilityFromHeader deps0
        (r_Header (req_get_ok\<lparr>r_URL_Path := ''/raft/stream/msgappv2/7''\<rparr>))
        (st_cid streamHandler0) = None"
    by (simp add: fixture_defs checkClusterCompatibilityFromHeader_def)
  have calls: "o_calls (streamHandler_ServeHTTP deps0 streamHandler0 newResponseWriter
        (req_get_ok\<lparr>r_URL_Path := ''/raft/stream/message/7''\<rparr>))
       = [CallCheckCompat, CallIsIDRemoved 7, CallGet 7, CallFlush,
          CallAttach (Peer 7)
            \<lparr>conn_t = streamTypeMessage, conn_termStr = [],
             conn_Writer = o_w (streamHandler_ServeHTTP deps0 streamHandler0 newResponseWriter
               (req_get_ok\<lparr>r_URL_Path := ''/raft/stream/message/7''\<rparr>)),
             conn_Closer = newCloseNotifier\<rparr>,
          CallWaitClose newCloseNotifier]"
    by (simp add: streamHandler_ServeHTTP_def fixture_defs run_defs Let_def)
  note t = streamType_by_path [of "''/raft/stream/7''" "''/raft/stream/msgapp/7''"
      "''/raft/stream/message/7''" "''/raft/stream/msgappv2/7''" newResponseWriter
      "req_get_ok\<lparr>r_URL_Path := ''/raft/stream/msgappv2/7''\<rparr>" deps0 streamHandler0]
  from t s1 s2 s3 d have types:
    "streamType_of_path ''/raft/stream/7'' = Some streamTypeMsgApp"
    "streamType_of_path ''/raft/stream/msgapp/7'' = Some streamTypeMsgAppV2"
    "streamType_of_path ''/raft/stream/message/7'' = Some streamTypeMessage"
    "streamType_of_path ''/raft/stream/msgappv2/7'' = None"
    by simp_all
  from t pre types(4)
  have nf: "w_status (o_w (streamHandler_ServeHTTP deps0 streamHandler0 newResponseWriter
        (req_get_ok\<lparr>r_URL_Path := ''/raft/stream/msgappv2/7''\<rparr>))) = Some StatusNotFound"
    by (simp add: req_get_ok_def)
  show ?thesis
    using s1 s2 s3 d pre types nf calls by simp
qed

text \<open>
  C4 as it is stated fails on a path that is not clean: \<open>/raft/stream//7\<close> lies under
  the stream prefix and has none of the three forms, yet its directory cleans to
  \<open>/raft/stream\<close>; the handler selects the legacy type and answers 200, not 404.
\<close>

theorem streamType_double_slash_counterexample:
  "take 13 (r_URL_Path req_get_double_slash) = ''/raft/stream/''
   \<and> \<not> segment_after ''/raft/stream/'' (r_URL_Path req_get_double_slash)
   \<and> \<not> segment_after ''/raft/stream/msgapp/'' (r_URL_Path req_get_double_slash)
   \<and> \<not> segment_after ''/raft/stream/message/'' (r_URL_Path req_get_double_slash)
   \<and> streamType_of_path (r_URL_Path req_get_double_slash) = Some streamTypeMsgApp
   \<and> w_status (o_w (streamHandler_ServeHTTP deps0 streamHandler0 newResponseWriter
        req_get_double_slash)) = Some StatusOK"
  by (simp add: segment_after_def streamHandler_ServeHTTP_def fixture_defs
      req_get_double_slash_def run_defs Let_def)

text \<open>
  C7, as amended. A request whose sender id parses and is reported as removed by the
  engine never leads to a call of the peer directory's \<open>Get\<close>. When the request is a GET
  that passes the compatibility check and whose path selects a stream type, the answer
  is 410 and the handler stops after \<open>IsIDRemoved\<close>.
\<close>

theorem removed_sender_410:
  "(IDFromString d (Base (r_URL_Path r)) = Inr from \<and> IsIDRemoved (st_r h) from \<longrightarrow>
      (\<forall>id. CallGet id \<notin> set (o_calls (streamHandler_ServeHTTP d h w r))))
   \<and> (w_status w = None \<and> r_Method r = ''GET''
        \<and> checkClusterCompatibilityFromHeader d (r_Header r) (st_cid h) = None
        \<and> streamType_of_path (r_URL_Path r) = Some t
        \<and> IDFromString d (Base (r_URL_Path r)) = Inr from \<and> IsIDRemoved (st_r h) from \<longrightarrow>
      w_status (o_w (streamHandler_ServeHTTP d h w r)) = Some StatusGone
      \<and> o_calls (streamHandler_ServeHTTP d h w r) = [CallCheckCompat, CallIsIDRemoved from])"
  by (auto simp: streamHandler_ServeHTTP_def Let_def split: option.splits sum.splits)

theorem removed_sender_410_witness:
  "w_status newResponseWriter = None \<and> r_Method req_get_ok = ''GET''
   \<and> checkClusterCompatibilityFromHeader deps0 (r_Header req_get_ok)
        (st_cid streamHandler_removed7) = None
   \<and> streamType_of_path (r_URL_Path req_get_ok) = Some streamTypeMsgApp
   \<and> IDFromString deps0 (Base (r_URL_Path req_get_ok)) = Inr 7
   \<and> IsIDRemoved (st_r streamHandler_removed7) 7
   \<and> w_status (o_w (streamHandler_ServeHTTP deps0 streamHandler_removed7 newResponseWriter
        req_get_ok)) = Some StatusGone
   \<and> o_calls (streamHandler_ServeHTTP deps0 streamHandler_removed7 newResponseWriter
        req_get_ok) = [CallCheckCompat, CallIsIDRemoved 7]
   \<and> w_body (o_w (streamHandler_ServeHTTP deps0 streamHandler_removed7 newResponseWriter
        req_get_ok)) = ''removed member'' @ [CHR 0x0A]"
proof -
  have pre: "w_status newResponseWriter = None \<and> r_Method req_get_ok = ''GET''
     \<and> checkClusterCompatibilityFromHeader deps0 (r_Header req_get_ok)
          (st_cid streamHandler_removed7) = None
     \<and> streamType_of_path (r_URL_Path req_get_ok) = Some streamTypeMsgApp
     \<and> IDFromString deps0 (Base (r_URL_Path req_get_ok)) = Inr 7
     \<and> IsIDRemoved (st_r streamHandler_removed7) 7"
    by (simp add: fixture_defs raft_removed7_def streamHandler_removed7_def run_defs)
  have body: "w_body (o_w (streamHandler_ServeHTTP deps0 streamHandler_removed7
        newResponseWriter req_get_ok)) = ''removed member'' @ [CHR 0x0A]"
    by (simp add: streamHandler_ServeHTTP_def fixture_defs raft_removed7_def
        streamHandler_removed7_def run_defs Let_def)
  from pre removed_sender_410 [of deps0 req_get_ok 7 streamHandler_removed7 newResponseWriter
      streamTypeMsgApp]
  have "w_status (o_w (streamHandler_ServeHTTP deps0 streamHandler_removed7 newResponseWriter
        req_get_ok)) = Some StatusGone
      \<and> o_calls (streamHandler_ServeHTTP deps0 streamHandler_removed7 newResponseWriter
        req_get_ok) = [CallCheckCompat, CallIsIDRemoved 7]"
    by blast
  with pre body show ?thesis
    by simp
qed

text \<open>
  C7 as it is stated fails: the compatibility check comes before the sender id is
  looked at. A GET for the removed sender 7 from a foreign cluster is answered 412.
\<close>

theorem removed_sender_foreign_cluster_counterexample:
  "r_Method req_get_foreign = ''GET''
   \<and> IDFromString deps0 (Base (r_URL_Path req_get_foreign)) = Inr 7
   \<and> IsIDRemoved (st_r streamHandler_removed7) 7
   \<and> w_status (o_w (streamHandler_ServeHTTP deps0 streamHandler_removed7 newResponseWriter
        req_get_foreign)) = Some StatusPreconditionFailed"
  by (simp add: streamHandler_ServeHTTP_def fixture_defs raft_removed7_def
      streamHandler_removed7_def req_get_foreign_def run_defs)

section \<open>The close notifier\<close>

text \<open>
  C8. Once \<open>Close\<close> has fired the notifier, a wait on \<open>closeNotify\<close> returns at once and
  leaves the notifier as it is, so any number \<open>k\<close> of waits in a row all return.
\<close>

theorem closeNotifier_wait_after_Close:
  "closeNotifier_Close n = Inr (n', e) \<Longrightarrow> wait_times k n' = Some n'"
proof -
  assume "closeNotifier_Close n = Inr (n', e)"
  then have closed: "cn_done n' = ChanClosed"
    by (auto simp: closeNotifier_Close_def go_close_def split: chan.splits)
  then have one: "wait_closeNotify n' = Some n'"
    by (simp add: wait_closeNotify_def closeNotify_def go_recv_def)
  show "wait_times k n' = Some n'"
    by (induction k) (simp_all add: one)
qed

theorem closeNotifier_wait_after_Close_witness:
  "closeNotifier_Close newCloseNotifier = Inr (\<lparr>cn_done = ChanClosed\<rparr>, None)
   \<and> wait_times 3 \<lparr>cn_done = ChanClosed\<rparr> = Some \<lparr>cn_done = ChanClosed\<rparr>
   \<and> wait_closeNotify newCloseNotifier = None"
proof -
  have c: "closeNotifier_Close newCloseNotifier = Inr (\<lparr>cn_done = ChanClosed\<rparr>, None)"
    by (simp add: closeNotifier_Close_def newCloseNotifier_def go_close_def)
  show ?thesis
    using c closeNotifier_wait_after_Close [OF c, of 3]
    by (simp add: wait_closeNotify_def closeNotify_def go_recv_def newCloseNotifier_def)
qed

text \<open>
  C10. A notifier is made with its channel open. \<open>Close\<close> on a notifier that has not
  been fired (its channel is still open) does not panic and returns the nil error; whenever
  \<open>Close\<close> has returned, a second \<open>Close\<close> on the same notifier panics, since it closes
  a closed channel.
\<close>

theorem closeNotifier_Close_once:
  "cn_done newCloseNotifier = ChanOpen
   \<and> (cn_done n = ChanOpen \<longrightarrow> (\<exists>n'. closeNotifier_Close n = Inr (n', None)))
   \<and> (\<forall>n' e. closeNotifier_Close n = Inr (n', e) \<longrightarrow>
         e = None \<and> closeNotifier_Close n' = Inl ''close of closed channel'')"
  by (auto simp: closeNotifier_Close_def go_close_def newCloseNotifier_def split: chan.splits)

theorem closeNotifier_Close_once_witness:
  "cn_done newCloseNotifier = ChanOpen
   \<and> closeNotifier_Close newCloseNotifier = Inr (\<lparr>cn_done = ChanClosed\<rparr>, None)
   \<and> closeNotifier_Close \<lparr>cn_done = ChanClosed\<rparr> = Inl ''close of closed channel''"
  using closeNotifier_Close_once [of newCloseNotifier]
  by (simp add: closeNotifier_Close_def go_close_def newCloseNotifier_def)

end
